theory Spec2Isabelle
  imports Main "HOL-Library.Word" "HOL-Library.AList"
begin

unbundle bit_operations_syntax

section \<open>The vm-lang host: state store, argument split and host run\<close>

text \<open>
  The development follows the host program of the scripting tool-chain: the class
  \<open>Parameters\<close>, the helper \<open>ReadFileContents\<close>, the bindings \<open>Argc\<close> and \<open>Argv\<close>,
  the state store \<open>JsonStateMap\<close> and \<open>main\<close>. Bytes are \<open>8 word\<close>, the
  \<open>uint64_t\<close> size of the observer interface is \<open>64 word\<close>, the \<open>int32_t\<close> of the
  bindings is \<open>32 word\<close> read with \<open>sint\<close>. Every exception of the source is a value of
  type \<open>error\<close>.
\<close>

type_synonym byte = "8 word"

datatype error =
    RuntimeError string
  | OutOfRange
  | VariantTypeError
  | HexDecodeError
  | JsonParseError
  | NullArgument

datatype Status = OK | BUFFER_TOO_SMALL | ERROR

subsection \<open>Hex codec\<close>

text \<open>
  Modelled from the spec: \<open>ToHex\<close> and \<open>FromHex\<close> of \<open>core/byte_array\<close>, which the
  store includes and calls but whose code is not part of the excerpt. The spec fixes them
  as a byte-to-text transform with two hex characters per byte, decoded without regard to
  letter case; the stored text of its scenario (\<open>deadbeef\<close>) is lower case. Text of odd
  length or with a character that is no hex digit is outside what the spec describes, and
  decoding it is reported as \<open>None\<close>.
\<close>

definition HexChar :: "byte \<Rightarrow> char" where
  "HexChar n = ''0123456789abcdef'' ! unat (n AND 15)"

definition ToHex :: "byte list \<Rightarrow> string" where
  "ToHex bs = concat (map (\<lambda>b. [HexChar (drop_bit 4 b), HexChar (b AND 15)]) bs)"

definition DecodeHexChar :: "char \<Rightarrow> byte option" where
  "DecodeHexChar c =
     (let n = (of_char c :: nat) in
      if 48 \<le> n \<and> n \<le> 57 then Some (of_nat (n - 48))
      else if 97 \<le> n \<and> n \<le> 102 then Some (of_nat (n - 87))
      else if 65 \<le> n \<and> n \<le> 70 then Some (of_nat (n - 55))
      else None)"

fun FromHex :: "string \<Rightarrow> byte list option" where
  "FromHex [] = Some []"
| "FromHex [c] = None"
| "FromHex (h # l # rest) =
     (case DecodeHexChar h of
        None \<Rightarrow> None
      | Some a \<Rightarrow>
          (case DecodeHexChar l of
             None \<Rightarrow> None
           | Some b \<Rightarrow>
               (case FromHex rest of
                  None \<Rightarrow> None
                | Some bs \<Rightarrow> Some ((push_bit 4 a OR b) # bs))))"


subsection \<open>The document tree\<close>

text \<open>
  Modelled from the spec: the \<open>Variant\<close> of \<open>variant/variant.hpp\<close>, which the spec
  describes as a tree-structured value store with object, has-key and index operations.
  An object keeps its members as an association list. The index operator on a mutable
  object is get-or-insert, as \<open>Write\<close> relies on it to create the member it assigns to;
  on a value that is no object it raises.
\<close>

datatype Variant =
    VNull
  | VBool bool
  | VInt int
  | VString string
  | VArray "Variant list"
  | VObject "(string \<times> Variant) list"

fun IsObject :: "Variant \<Rightarrow> bool" where
  "IsObject (VObject kvs) = True"
| "IsObject _ = False"

fun Has :: "Variant \<Rightarrow> string \<Rightarrow> bool" where
  "Has (VObject kvs) key = (map_of kvs key \<noteq> None)"
| "Has _ key = False"

text \<open>\<open>subscript v key\<close> is \<open>v[key]\<close>: the member and the document after the access.\<close>

fun subscript :: "Variant \<Rightarrow> string \<Rightarrow> error + (Variant \<times> Variant)" where
  "subscript (VObject kvs) key =
     (case map_of kvs key of
        Some v \<Rightarrow> Inr (v, VObject kvs)
      | None \<Rightarrow> Inr (VNull, VObject (kvs @ [(key, VNull)])))"
| "subscript _ key = Inl VariantTypeError"

text \<open>\<open>assign_member v key x\<close> stores \<open>x\<close> through the reference \<open>v[key]\<close>.\<close>

fun assign_member :: "Variant \<Rightarrow> string \<Rightarrow> Variant \<Rightarrow> error + Variant" where
  "assign_member (VObject kvs) key x = Inr (VObject (AList.update key x kvs))"
| "assign_member _ key x = Inl VariantTypeError"

text \<open>\<open>As<ConstByteArray>()\<close>: the text of a string value.\<close>

fun As_ConstByteArray :: "Variant \<Rightarrow> error + string" where
  "As_ConstByteArray (VString s) = Inr s"
| "As_ConstByteArray _ = Inl VariantTypeError"

subsection \<open>JsonStateMap: the observer operations\<close>

text \<open>The field \<open>data_map\<close> is the member \<open>data_\<close> of the class.\<close>

record JsonStateMap =
  data_map :: Variant

definition JsonStateMap_init :: JsonStateMap where
  "JsonStateMap_init = \<lparr>data_map = VObject []\<rparr>"

text \<open>
  \<open>Read key data sz st\<close>: \<open>data\<close> is the caller's buffer and \<open>sz\<close> the in/out
  parameter. The result is the returned status with the size and the buffer after the
  call, or the exception raised, paired with the store after the call. \<open>memcpy\<close>
  overwrites the first \<open>value.size()\<close> bytes of the buffer and leaves the rest; a
  caller whose buffer is shorter than the capacity it passes is outside the interface.
\<close>

definition Read ::
  "string \<Rightarrow> byte list \<Rightarrow> 64 word \<Rightarrow> JsonStateMap
     \<Rightarrow> (error + Status \<times> 64 word \<times> byte list) \<times> JsonStateMap" where
  "Read key data sz st =
     (if Has (data_map st) key then
        (case subscript (data_map st) key of
           Inl e \<Rightarrow> (Inl e, st)
         | Inr (member, d) \<Rightarrow>
             (let st' = st\<lparr>data_map := d\<rparr> in
              case As_ConstByteArray member of
                Inl e \<Rightarrow> (Inl e, st')
              | Inr hex \<Rightarrow>
                  (case FromHex hex of
                     None \<Rightarrow> (Inl HexDecodeError, st')
                   | Some value \<Rightarrow>
                       (let vsize = (of_nat (length value) :: 64 word) in
                        if sz \<ge> vsize
                        then (Inr (OK, vsize, value @ drop (length value) data), st')
                        else (Inr (BUFFER_TOO_SMALL, vsize, data), st')))))
      else (Inr (ERROR, sz, data), st))"

text \<open>
  \<open>Write key data sz st\<close>: the bytes written are the first \<open>sz\<close> bytes at \<open>data\<close>.
\<close>

definition Write ::
  "string \<Rightarrow> byte list \<Rightarrow> 64 word \<Rightarrow> JsonStateMap \<Rightarrow> (error + Status) \<times> JsonStateMap" where
  "Write key data sz st =
     (case subscript (data_map st) key of
        Inl e \<Rightarrow> (Inl e, st)
      | Inr (member, d) \<Rightarrow>
          (case assign_member d key (VString (ToHex (take (unat sz) data))) of
             Inl e \<Rightarrow> (Inl e, st\<lparr>data_map := d\<rparr>)
           | Inr d' \<Rightarrow> (Inr OK, st\<lparr>data_map := d'\<rparr>)))"

definition Exists :: "string \<Rightarrow> JsonStateMap \<Rightarrow> Status \<times> JsonStateMap" where
  "Exists key st = ((if Has (data_map st) key then OK else ERROR), st)"

subsection \<open>Parameters: the split of the command line\<close>

text \<open>
  Modelled from the spec: the \<open>ParamsParser\<close> of \<open>core/commandline/params.hpp\<close>. The
  host only asks it for the number of positional arguments (\<open>arg_size\<close>), one positional
  argument (\<open>GetArg\<close>) and a named option with a default (\<open>GetParam\<close>), so its result is
  a list of positional arguments and an association list of options. How it splits the
  program arguments into the two is not fixed here: its \<open>Parse\<close> is a parameter of the
  host (\<open>ParamsParser_Parse\<close> below).
\<close>

record ParamParser =
  args :: "string list"
  params :: "(string \<times> string) list"

definition arg_size :: "ParamParser \<Rightarrow> nat" where
  "arg_size p = length (args p)"

definition GetArg :: "ParamParser \<Rightarrow> nat \<Rightarrow> error + string" where
  "GetArg p i = (if i < length (args p) then Inr (args p ! i) else Inl OutOfRange)"

definition GetParam :: "ParamParser \<Rightarrow> string \<Rightarrow> string \<Rightarrow> string" where
  "GetParam p name default_value =
     (case map_of (params p) name of Some v \<Rightarrow> v | None \<Rightarrow> default_value)"

record Parameters =
  program :: ParamParser
  script :: "string list"

definition SEPARATOR :: string where
  "SEPARATOR = ''--''"

text \<open>\<open>current_list\<close> points at one of the two local lists.\<close>

datatype ArgList = program_args | script_args

text \<open>
  The loop over \<open>argv[1..argc)\<close>: the state is the list \<open>current_list\<close> points at and
  the two lists built so far.
\<close>

fun Parse_loop ::
  "ArgList \<Rightarrow> string list \<Rightarrow> string list \<times> string list \<Rightarrow> string list \<times> string list" where
  "Parse_loop current_list [] (pa, sa) = (pa, sa)"
| "Parse_loop current_list (a # rest) (pa, sa) =
     (if SEPARATOR = a then Parse_loop script_args rest (pa, sa)
      else (case current_list of
              program_args \<Rightarrow> Parse_loop current_list rest (pa @ [a], sa)
            | script_args \<Rightarrow> Parse_loop current_list rest (pa, sa @ [a])))"

text \<open>
  \<open>Parse pparse argv\<close>, with \<open>argc = length argv\<close>. With \<open>argc = 0\<close> the source reads
  the null pointer \<open>argv[0]\<close> into a \<open>std::string\<close>; the model reports that as an error.
\<close>

definition Parse :: "(string list \<Rightarrow> ParamParser) \<Rightarrow> string list \<Rightarrow> error + Parameters" where
  "Parse pparse argv =
     (case argv of
        [] \<Rightarrow> Inl NullArgument
      | a0 # rest \<Rightarrow>
          (case Parse_loop program_args rest ([a0], [a0]) of
             (pa, sa) \<Rightarrow> Inr \<lparr>program = pparse pa, script = sa\<rparr>))"

subsection \<open>The bindings Argc and Argv\<close>

definition Argc :: "Parameters \<Rightarrow> 32 word" where
  "Argc p = of_nat (length (script p))"

text \<open>
  \<open>static_cast<std::size_t>(index)\<close> sign-extends the \<open>int32_t\<close> to 64 bits; \<open>at\<close>
  raises \<open>std::out_of_range\<close> beyond the end of the list.
\<close>

definition Argv :: "Parameters \<Rightarrow> 32 word \<Rightarrow> error + string" where
  "Argv p index =
     (let i = unat (scast index :: 64 word) in
      if i < length (script p) then Inr (script p ! i) else Inl OutOfRange)"

subsection \<open>Files\<close>

text \<open>
  The file system is a map from paths to contents; a path outside its domain is a file
  that cannot be opened. Opening a file for writing always succeeds in this model.
\<close>

type_synonym filesystem = "string \<rightharpoonup> string"

definition ReadFileContents :: "filesystem \<Rightarrow> string \<Rightarrow> string" where
  "ReadFileContents fs path =
     (case fs path of
        None \<Rightarrow> []
      | Some contents \<Rightarrow> if length contents = 0 then [] else contents)"

text \<open>
  The JSON reader (\<open>JSONDocument\<close>) and the stream output of a \<open>Variant\<close> are not part
  of the excerpt and the spec treats both as black boxes, so they are parameters:
  \<open>parse\<close> gives the root of the parsed document, or \<open>None\<close> where the constructor
  raises; \<open>print\<close> is the text \<open>operator<<\<close> writes.
\<close>

definition LoadFromFile ::
  "(string \<Rightarrow> Variant option) \<Rightarrow> filesystem \<Rightarrow> string \<Rightarrow> JsonStateMap \<Rightarrow> error + JsonStateMap" where
  "LoadFromFile parse fs filename st =
     (let file_contents = ReadFileContents fs filename in
      if file_contents \<noteq> [] then
        (case parse file_contents of
           None \<Rightarrow> Inl JsonParseError
         | Some root \<Rightarrow>
             if \<not> IsObject root then Inl (RuntimeError ''JSON state file is not correct'')
             else Inr (st\<lparr>data_map := root\<rparr>))
      else Inr st)"

text \<open>
  \<open>SaveToFile print can_open filename st fs\<close>. The source never tests the stream it
  opens: when the file cannot be opened nothing is written and the call returns all the
  same. \<open>can_open\<close> says which files can be opened for writing.
\<close>

definition SaveToFile ::
  "(Variant \<Rightarrow> string) \<Rightarrow> (string \<Rightarrow> bool) \<Rightarrow> string \<Rightarrow> JsonStateMap
     \<Rightarrow> filesystem \<Rightarrow> filesystem" where
  "SaveToFile print can_open filename st fs =
     (if can_open filename then fs(filename \<mapsto> print (data_map st)) else fs)"

subsection \<open>The host run\<close>

text \<open>
  The compiler and the virtual machine (\<open>VMFactory::Compile\<close>, \<open>VM::Execute\<close>) are
  not part of the excerpt; with the command-line parser and the JSON reader and writer
  they are the collaborators of \<open>main\<close>, gathered in one record together with the
  files that can be opened for writing. \<open>Compile\<close> gives the
  diagnostics and the script; \<open>Execute\<close> is given the parsed parameters, which the
  bindings \<open>Argc\<close> and \<open>Argv\<close> read, the script, the name of the function and the store
  it observes, and gives the result of the call and the store after it.
\<close>

record 'out ExecutionResult =
  success :: bool
  error_text :: string
  console :: string
  output_value :: 'out

record ('script, 'out) Host =
  ParamsParser_Parse :: "string list \<Rightarrow> ParamParser"
  Compile :: "string \<Rightarrow> string list \<times> 'script"
  Execute :: "Parameters \<Rightarrow> 'script \<Rightarrow> string \<Rightarrow> JsonStateMap
                \<Rightarrow> 'out ExecutionResult \<times> JsonStateMap"
  JSONDocument :: "string \<Rightarrow> Variant option"
  print_Variant :: "Variant \<Rightarrow> string"
  can_open_for_writing :: "string \<Rightarrow> bool"

text \<open>
  A run ends by returning an exit code or by an exception nobody catches. The trace lists
  what the run did, in order: the usage exit, the compilation with its diagnostics, the
  load of the state file, the call with its success flag, the save. What the run prints
  is left out.
\<close>

datatype outcome = Exit int | Terminate error

datatype event =
    Usage
  | Compiled "string list"
  | Loaded
  | LoadFailed error
  | Executed bool
  | Saved

record run =
  outcome :: outcome
  trace :: "event list"
  files :: filesystem

definition main :: "('script, 'out) Host \<Rightarrow> string list \<Rightarrow> filesystem \<Rightarrow> run" where
  "main H argv fs =
     (case Parse (ParamsParser_Parse H) argv of
        Inl e \<Rightarrow> \<lparr>outcome = Terminate e, trace = [], files = fs\<rparr>
      | Inr ps \<Rightarrow>
          if 2 \<noteq> arg_size (program ps)
          then \<lparr>outcome = Exit 1, trace = [Usage], files = fs\<rparr>
          else
            (case GetArg (program ps) 1 of
               Inl e \<Rightarrow> \<lparr>outcome = Terminate e, trace = [], files = fs\<rparr>
             | Inr source_path \<Rightarrow>
                 (case Compile H (ReadFileContents fs source_path) of
                    (errors, compiled_script) \<Rightarrow>
                      if errors \<noteq> []
                      then \<lparr>outcome = Exit 1, trace = [Compiled errors], files = fs\<rparr>
                      else
                        (let data_path = GetParam (program ps) ''data'' [] in
                         case (if data_path \<noteq> []
                               then LoadFromFile (JSONDocument H) fs data_path JsonStateMap_init
                               else Inr JsonStateMap_init) of
                           Inl e \<Rightarrow>
                             \<lparr>outcome = Terminate e,
                              trace = [Compiled errors, LoadFailed e], files = fs\<rparr>
                         | Inr state_map \<Rightarrow>
                             (case Execute H ps compiled_script (GetParam (program ps) ''func'' ''main'')
                                     state_map of
                                (result, state_map') \<Rightarrow>
                                  \<lparr>outcome = Exit (if success result then 0 else 1),
                                   trace =
                                     [Compiled errors]
                                     @ (if data_path \<noteq> [] then [Loaded] else [])
                                     @ [Executed (success result)]
                                     @ (if data_path \<noteq> [] then [Saved] else []),
                                   files =
                                     (if data_path \<noteq> []
                                      then SaveToFile (print_Variant H) (can_open_for_writing H) data_path
                                             state_map' fs
                                      else fs)\<rparr>)))))"

subsection \<open>A minimal compiler and execution engine\<close>

text \<open>
  Modelled from the spec: the compiler and the execution engine (\<open>vm/compiler.hpp\<close>,
  \<open>vm/vm.hpp\<close>, \<open>vm_modules/vm_factory.hpp\<close>), of which the excerpt has only the calls.
  The spec does not fix the grammar or the instruction set, so a program is given by its
  structure: named functions, each returning an expression built from literals and calls
  of registered host bindings. Compilation resolves every called name against the
  registry and gives one diagnostic per unresolved call; execution resolves the function
  name, fails with an error text if it is absent, calls each binding synchronously and
  feeds its value back, and a fault of a binding ends the call with \<open>success = False\<close>.
  The two bindings the host registers, \<open>System.Argc\<close> and \<open>System.Argv\<close>, are the
  source's.
\<close>

datatype OutputValue = NoValue | BoolValue bool | Int32Value "32 word" | StringValue string

datatype Expr = Literal OutputValue | Call0 string | Call1 string Expr

type_synonym Script = "(string \<times> Expr) list"

type_synonym Binding = "OutputValue list \<Rightarrow> error + OutputValue"

definition System_bindings :: "Parameters \<Rightarrow> (string \<times> Binding) list" where
  "System_bindings ps =
     [(''System.Argc'',
         (\<lambda>vs. case vs of [] \<Rightarrow> Inr (Int32Value (Argc ps)) | _ \<Rightarrow> Inl VariantTypeError)),
      (''System.Argv'',
         (\<lambda>vs. case vs of
                 [Int32Value i] \<Rightarrow>
                   (case Argv ps i of Inl e \<Rightarrow> Inl e | Inr s \<Rightarrow> Inr (StringValue s))
               | _ \<Rightarrow> Inl VariantTypeError))]"

definition registered_names :: "string list" where
  "registered_names = [''System.Argc'', ''System.Argv'']"

primrec unresolved :: "string list \<Rightarrow> Expr \<Rightarrow> string list" where
  "unresolved names (Literal v) = []"
| "unresolved names (Call0 f) = (if f \<in> set names then [] else [f])"
| "unresolved names (Call1 f e) =
     unresolved names e @ (if f \<in> set names then [] else [f])"

definition Compile_program :: "string list \<Rightarrow> Script \<Rightarrow> string list \<times> Script" where
  "Compile_program names prog =
     (let diagnostics =
            concat (map (\<lambda>(fname, body).
                           map (\<lambda>f. ''unresolved identifier: '' @ f) (unresolved names body))
                        prog)
      in if diagnostics = [] then ([], prog) else (diagnostics, []))"

primrec evaluate :: "(string \<times> Binding) list \<Rightarrow> Expr \<Rightarrow> error + OutputValue" where
  "evaluate reg (Literal v) = Inr v"
| "evaluate reg (Call0 f) =
     (case map_of reg f of None \<Rightarrow> Inl OutOfRange | Some b \<Rightarrow> b [])"
| "evaluate reg (Call1 f e) =
     (case evaluate reg e of
        Inl err \<Rightarrow> Inl err
      | Inr v \<Rightarrow> (case map_of reg f of None \<Rightarrow> Inl OutOfRange | Some b \<Rightarrow> b [v]))"

definition Execute_program ::
  "Parameters \<Rightarrow> Script \<Rightarrow> string \<Rightarrow> JsonStateMap
     \<Rightarrow> OutputValue ExecutionResult \<times> JsonStateMap" where
  "Execute_program ps unit fname st =
     (case map_of unit fname of
        None \<Rightarrow>
          (\<lparr>success = False, error_text = ''function not found: '' @ fname,
            console = [], output_value = NoValue\<rparr>, st)
      | Some body \<Rightarrow>
          (case evaluate (System_bindings ps) body of
             Inl err \<Rightarrow>
               (\<lparr>success = False, error_text = ''runtime error'',
                 console = [], output_value = NoValue\<rparr>, st)
           | Inr v \<Rightarrow>
               (\<lparr>success = True, error_text = [], console = [], output_value = v\<rparr>, st)))"

text \<open>
  The program of the scenario, \<open>function main(): Int32 return System.Argc(); end\<close>.
\<close>

definition argc_program :: Script where
  "argc_program = [(''main'', Call0 ''System.Argc'')]"

subsection \<open>A JSON writer and reader for state files\<close>

text \<open>
  Modelled from the spec: the stream output of a \<open>Variant\<close> and the reader
  \<open>JSONDocument\<close> (\<open>variant/variant.hpp\<close>, \<open>core/json/document.hpp\<close>), which the host
  calls and the excerpt does not contain. The spec gives the format of a state file: text
  with a single JSON-like object at the root, each member's value a string; and it speaks
  of a root that is a list. The writer writes a document tree as JSON text, strings in
  double quotes with the quote and the backslash escaped. The reader skips white space
  between tokens and reads an object whose members are strings or a list of strings;
  on any other text it raises, which is \<open>None\<close> here.
\<close>

definition escape_char :: "char \<Rightarrow> string" where
  "escape_char c = (if c = CHR 0x22 \<or> c = CHR 0x5C then [CHR 0x5C, c] else [c])"

definition quote :: "string \<Rightarrow> string" where
  "quote s = CHR 0x22 # concat (map escape_char s) @ [CHR 0x22]"

fun join :: "string list \<Rightarrow> string" where
  "join [] = []"
| "join [x] = x"
| "join (x # y # ys) = x @ '','' @ join (y # ys)"

fun nat_digits :: "nat \<Rightarrow> string" where
  "nat_digits n =
     (if n < 10 then [''0123456789'' ! n]
      else nat_digits (n div 10) @ [''0123456789'' ! (n mod 10)])"

definition decimal :: "int \<Rightarrow> string" where
  "decimal i = (if i < 0 then ''-'' @ nat_digits (nat (- i)) else nat_digits (nat i))"

primrec JSON_write :: "Variant \<Rightarrow> string" where
  "JSON_write VNull = ''null''"
| "JSON_write (VBool b) = (if b then ''true'' else ''false'')"
| "JSON_write (VInt i) = decimal i"
| "JSON_write (VString s) = quote s"
| "JSON_write (VArray vs) = ''['' @ join (map JSON_write vs) @ '']''"
| "JSON_write (VObject kvs) =
     ''{'' @ join (map (\<lambda>(k, text). quote k @ '':'' @ text) (map (map_prod id JSON_write) kvs))
       @ ''}''"

datatype token = LBrace | RBrace | LBracket | RBracket | Colon | Comma | TString string

text \<open>
  The tokenizer reads one character at a time; inside a string it keeps the characters
  read so far, last one first.
\<close>

datatype lexer_state = Outside | InString string | Escaped string

definition is_space :: "char \<Rightarrow> bool" where
  "is_space c = (c = CHR '' '' \<or> c = CHR 0x09 \<or> c = CHR 0x0A \<or> c = CHR 0x0D)"

definition structural :: "char \<Rightarrow> token option" where
  "structural c =
     (if c = CHR ''{'' then Some LBrace
      else if c = CHR ''}'' then Some RBrace
      else if c = CHR ''['' then Some LBracket
      else if c = CHR '']'' then Some RBracket
      else if c = CHR '':'' then Some Colon
      else if c = CHR '','' then Some Comma
      else None)"

fun tokenize :: "lexer_state \<Rightarrow> string \<Rightarrow> token list option" where
  "tokenize Outside [] = Some []"
| "tokenize (InString acc) [] = None"
| "tokenize (Escaped acc) [] = None"
| "tokenize Outside (c # cs) =
     (if c = CHR 0x22 then tokenize (InString []) cs
      else if is_space c then tokenize Outside cs
      else (case structural c of
              None \<Rightarrow> None
            | Some t \<Rightarrow> map_option ((#) t) (tokenize Outside cs)))"
| "tokenize (InString acc) (c # cs) =
     (if c = CHR 0x22 then map_option ((#) (TString (rev acc))) (tokenize Outside cs)
      else if c = CHR 0x5C then tokenize (Escaped acc) cs
      else tokenize (InString (c # acc)) cs)"
| "tokenize (Escaped acc) (c # cs) =
     (if c = CHR 0x22 \<or> c = CHR 0x5C then tokenize (InString (c # acc)) cs else None)"

fun members :: "token list \<Rightarrow> (string \<times> Variant) list option" where
  "members (TString k # Colon # TString v # t # ts) =
     (if t = RBrace \<and> ts = [] then Some [(k, VString v)]
      else if t = Comma then map_option ((#) (k, VString v)) (members ts)
      else None)"
| "members _ = None"

fun elements :: "token list \<Rightarrow> Variant list option" where
  "elements (TString s # t # ts) =
     (if t = RBracket \<and> ts = [] then Some [VString s]
      else if t = Comma then map_option ((#) (VString s)) (elements ts)
      else None)"
| "elements _ = None"

definition document :: "token list \<Rightarrow> Variant option" where
  "document ts =
     (case ts of
        LBrace # rest \<Rightarrow>
          if rest = [RBrace] then Some (VObject []) else map_option VObject (members rest)
      | LBracket # rest \<Rightarrow>
          if rest = [RBracket] then Some (VArray []) else map_option VArray (elements rest)
      | _ \<Rightarrow> None)"

definition JSON_read :: "string \<Rightarrow> Variant option" where
  "JSON_read text = (case tokenize Outside text of None \<Rightarrow> None | Some ts \<Rightarrow> document ts)"

text \<open>
  The documents of the spec's data model: an object from keys to strings. Every store
  the operations of the class build has such a document (lemmas
  \<open>JsonStateMap_init_string_members\<close>, \<open>Write_keeps_string_members\<close> and
  \<open>LoadFromFile_keeps_string_members\<close> below).
\<close>

fun IsString :: "Variant \<Rightarrow> bool" where
  "IsString (VString s) = True"
| "IsString _ = False"

fun string_members :: "Variant \<Rightarrow> bool" where
  "string_members (VObject kvs) = list_all (\<lambda>(k, v). IsString v) kvs"
| "string_members _ = False"

subsection \<open>Sample collaborators for concrete runs\<close>

text \<open>
  The concrete runs below need collaborators to run with. The sample command-line parser
  takes an argument that starts with \<open>-\<close> as the name of an option whose value is the
  next argument, and every other argument as positional. The sample compiler knows one
  source text, that of the scenario, and rejects every other. The JSON reader and writer
  and the engine are the ones above. Every file can be opened for writing but the one
  with the empty name.
\<close>

fun sample_ParamsParser :: "string list \<Rightarrow> ParamParser \<Rightarrow> ParamParser" where
  "sample_ParamsParser [] p = p"
| "sample_ParamsParser [a] p =
     (if take 1 a = ''-'' then p\<lparr>params := params p @ [(drop 1 a, ''1'')]\<rparr>
      else p\<lparr>args := args p @ [a]\<rparr>)"
| "sample_ParamsParser (a # v # rest) p =
     (if take 1 a = ''-''
      then sample_ParamsParser rest (p\<lparr>params := params p @ [(drop 1 a, v)]\<rparr>)
      else sample_ParamsParser (v # rest) (p\<lparr>args := args p @ [a]\<rparr>))"

definition argc_source :: string where
  "argc_source = ''function main(): Int32 return System.Argc(); end''"

definition sample_Compile :: "string \<Rightarrow> string list \<times> Script" where
  "sample_Compile source =
     (if source = argc_source then Compile_program registered_names argc_program
      else ([''line 1: syntax error''], []))"

definition sample_can_open :: "string \<Rightarrow> bool" where
  "sample_can_open path = (path \<noteq> [])"

definition sample_Host :: "(Script, OutputValue) Host" where
  "sample_Host =
     \<lparr>ParamsParser_Parse = (\<lambda>pa. sample_ParamsParser pa \<lparr>args = [], params = []\<rparr>),
      Compile = sample_Compile,
      Execute = Execute_program,
      JSONDocument = JSON_read,
      print_Variant = JSON_write,
      can_open_for_writing = sample_can_open\<rparr>"

text \<open>
  A file system with the script of the scenario, a state file whose root is a list, an
  empty file and a state file with one entry.
\<close>

definition sample_files :: filesystem where
  "sample_files =
     [''argc.etch'' \<mapsto> argc_source,
      ''list.json'' \<mapsto> ''[]'',
      ''empty.json'' \<mapsto> [],
      ''state.json'' \<mapsto> ''{\"x\": \"deadbeef\"}'']"

section \<open>Verification\<close>

subsection \<open>The hex codec\<close>

lemma DecodeHexChar_digits:
  "list_all (\<lambda>k. DecodeHexChar (''0123456789abcdef'' ! k) = Some (of_nat k)) [0..<16]"
  by code_simp

lemma DecodeHexChar_HexChar: "DecodeHexChar (HexChar n) = Some (n AND 15)"
proof -
  have "unat (n AND 15) \<le> unat (15 :: byte)"
    by (rule word_and_le1 [THEN word_le_nat_alt [THEN iffD1]])
  then have "unat (n AND 15) \<in> set [0..<16]"
    by simp
  with DecodeHexChar_digits
  have "DecodeHexChar (''0123456789abcdef'' ! unat (n AND 15)) = Some (of_nat (unat (n AND 15)))"
    unfolding list_all_iff by blast
  then show ?thesis
    by (simp add: HexChar_def)
qed

lemma fifteen_mask: "(15 :: byte) = mask 4"
  by (simp add: mask_eq_exp_minus_1)

lemma nibbles_join: "push_bit 4 (drop_bit 4 b AND 15) OR ((b AND 15) AND 15) = (b :: byte)"
  unfolding fifteen_mask
  by (rule bit_word_eqI) (auto simp: bit_simps)

lemma FromHex_two_digits:
  "FromHex (HexChar (drop_bit 4 b) # HexChar (b AND 15) # s) =
     (case FromHex s of None \<Rightarrow> None | Some bs \<Rightarrow> Some (b # bs))"
  by (simp only: FromHex.simps DecodeHexChar_HexChar option.case nibbles_join)

lemma ToHex_Cons: "ToHex (b # bs) = HexChar (drop_bit 4 b) # HexChar (b AND 15) # ToHex bs"
  by (simp add: ToHex_def)

lemma FromHex_ToHex: "FromHex (ToHex bs) = Some bs"
proof (induction bs)
  case Nil
  show ?case by (simp add: ToHex_def)
next
  case (Cons b bs)
  then show ?case
    by (simp only: ToHex_Cons FromHex_two_digits option.case)
qed




subsection \<open>The observer operations\<close>

lemma sint_of_nat_32: "n < 2 ^ 31 \<Longrightarrow> sint (of_nat n :: 32 word) = int n"
  by (simp add: signed_of_nat signed_take_bit_int_eq_self)

lemma IsObject_cases: "IsObject d \<Longrightarrow> \<exists>kvs. d = VObject kvs"
  by (cases d) auto

lemma Has_subscript: "Has d key \<Longrightarrow> \<exists>v. subscript d key = Inr (v, d)"
  by (cases d) auto

lemma Write_object:
  assumes "data_map st = VObject kvs"
  shows "Write key data sz st =
           (Inr OK,
            st\<lparr>data_map :=
                 VObject (AList.update key (VString (ToHex (take (unat sz) data)))
                   (case map_of kvs key of Some v \<Rightarrow> kvs | None \<Rightarrow> kvs @ [(key, VNull)]))\<rparr>)"
  using assms by (simp add: Write_def split: option.splits)

lemma Write_lookup:
  assumes "data_map st = VObject kvs"
  shows "\<exists>kvs'. data_map (snd (Write key data sz st)) = VObject kvs'
            \<and> map_of kvs' key = Some (VString (ToHex (take (unat sz) data)))"
  using assms by (simp add: Write_object update_Some_unfold split: option.splits)

lemma Read_hex:
  assumes "data_map st = VObject kvs" and "map_of kvs key = Some (VString (ToHex bs))"
  shows "Read key data sz st =
          ((if sz \<ge> of_nat (length bs)
            then Inr (OK, of_nat (length bs), bs @ drop (length bs) data)
            else Inr (BUFFER_TOO_SMALL, of_nat (length bs), data)), st)"
  using assms by (simp add: Read_def FromHex_ToHex Let_def)

lemma take_all_bytes:
  "length B < 2 ^ 64 \<Longrightarrow> take (unat (of_nat (length B) :: 64 word)) B = B"
  by (simp add: unsigned_of_nat take_bit_nat_eq_self)

lemma Write_then_Read:
  assumes "IsObject (data_map st)" and "length B < 2 ^ 64"
  shows "fst (Write K B (of_nat (length B)) st) = Inr OK"
    and "fst (Read K buf capacity (snd (Write K B (of_nat (length B)) st))) =
           (if capacity \<ge> of_nat (length B)
            then Inr (OK, of_nat (length B), B @ drop (length B) buf)
            else Inr (BUFFER_TOO_SMALL, of_nat (length B), buf))"
proof -
  obtain kvs where kvs: "data_map st = VObject kvs"
    using assms(1) IsObject_cases by blast
  show "fst (Write K B (of_nat (length B)) st) = Inr OK"
    by (simp add: Write_object [OF kvs])
  obtain kvs' where after:
    "data_map (snd (Write K B (of_nat (length B)) st)) = VObject kvs'"
    "map_of kvs' K = Some (VString (ToHex B))"
    using Write_lookup [OF kvs, of K B "of_nat (length B)"] take_all_bytes [OF assms(2)]
    by auto
  show "fst (Read K buf capacity (snd (Write K B (of_nat (length B)) st))) =
           (if capacity \<ge> of_nat (length B)
            then Inr (OK, of_nat (length B), B @ drop (length B) buf)
            else Inr (BUFFER_TOO_SMALL, of_nat (length B), buf))"
    by (simp add: Read_hex [OF after])
qed

lemma JsonStateMap_init_object: "IsObject (data_map JsonStateMap_init)"
  by (simp add: JsonStateMap_init_def)

lemma Write_keeps_object: "IsObject (data_map st) \<Longrightarrow> IsObject (data_map (snd (Write key data sz st)))"
  using IsObject_cases [of "data_map st"] by (auto simp: Write_object)

lemma LoadFromFile_keeps_object:
  "IsObject (data_map st) \<Longrightarrow> LoadFromFile parse fs filename st = Inr st'
     \<Longrightarrow> IsObject (data_map st')"
  by (auto simp: LoadFromFile_def Let_def split: if_splits option.splits)

text \<open>
  C1. For every key \<open>K\<close> and byte sequence \<open>B\<close> (of a length a \<open>uint64_t\<close> holds, written
  to a store whose document is an object, as it is from construction on): \<open>Write\<close>
  returns \<open>OK\<close>, and a following \<open>Read\<close> of \<open>K\<close> with a capacity of at least the length
  of \<open>B\<close> returns \<open>OK\<close>, sets the size to the length of \<open>B\<close> and puts exactly the bytes
  \<open>B\<close> at the start of the caller's buffer, the rest of the buffer as it was.
\<close>

theorem Write_then_Read_roundtrip:
  assumes "IsObject (data_map st)" and "length B < 2 ^ 64"
    and "of_nat (length B) \<le> capacity"
  shows "fst (Write K B (of_nat (length B)) st) = Inr OK
       \<and> fst (Read K buf capacity (snd (Write K B (of_nat (length B)) st))) =
           Inr (OK, of_nat (length B), B @ drop (length B) buf)"
  using Write_then_Read [OF assms(1,2), of K] assms(3) by simp

theorem Write_then_Read_roundtrip_witness:
  "IsObject (data_map JsonStateMap_init)
   \<and> length [0xDE, 0xAD, 0xBE, 0xEF :: byte] < 2 ^ 64
   \<and> (of_nat (length [0xDE, 0xAD, 0xBE, 0xEF :: byte]) :: 64 word) \<le> 6
   \<and> fst (Read ''x'' [1, 2, 3, 4, 5, 6] 6
            (snd (Write ''x'' [0xDE, 0xAD, 0xBE, 0xEF] 4 JsonStateMap_init))) =
       Inr (OK, 4, [0xDE, 0xAD, 0xBE, 0xEF, 5, 6])"
proof -
  have h1: "IsObject (data_map JsonStateMap_init)"
    by (rule JsonStateMap_init_object)
  have h2: "length [0xDE, 0xAD, 0xBE, 0xEF :: byte] < 2 ^ 64"
    by simp
  have h3: "(of_nat (length [0xDE, 0xAD, 0xBE, 0xEF :: byte]) :: 64 word) \<le> 6"
    by simp
  show ?thesis
    using h1 h2 h3 Write_then_Read_roundtrip [OF h1 h2 h3, of "''x''" "[1, 2, 3, 4, 5, 6]"]
    by simp
qed

text \<open>
  C2, as stated, fails for the empty byte sequence: its size is 0, the capacity 0 is not
  smaller, and the probing \<open>Read\<close> returns \<open>OK\<close>.
\<close>

theorem Read_probe_empty_value_counterexample:
  "fst (Read ''k'' [7] 0 (snd (Write ''k'' [] (of_nat (length ([] :: byte list))) JsonStateMap_init)))
     = Inr (OK, 0, [7])
   \<and> fst (Read ''k'' [7] 0 (snd (Write ''k'' [] (of_nat (length ([] :: byte list))) JsonStateMap_init)))
     \<noteq> Inr (BUFFER_TOO_SMALL, of_nat (length ([] :: byte list)), [7])"
  by (simp add: Read_def Write_def JsonStateMap_init_def ToHex_def AList.update_def)

text \<open>
  C2, amended. For every key \<open>K\<close> and every non-empty byte sequence \<open>B\<close>, \<open>Write\<close>
  followed by \<open>Read\<close> with capacity 0 returns \<open>BUFFER_TOO_SMALL\<close>, sets the size to the
  length of \<open>B\<close> and leaves the caller's buffer as it was.
\<close>

theorem Write_then_Read_probe:
  assumes "IsObject (data_map st)" and "length B < 2 ^ 64" and "B \<noteq> []"
  shows "fst (Read K buf 0 (snd (Write K B (of_nat (length B)) st))) =
           Inr (BUFFER_TOO_SMALL, of_nat (length B), buf)"
proof -
  have "unat (of_nat (length B) :: 64 word) = length B"
    using assms(2) by (simp add: unsigned_of_nat take_bit_nat_eq_self)
  then have "(of_nat (length B) :: 64 word) \<noteq> 0"
    using assms(3) by (metis length_0_conv unat_0)
  then have "\<not> (of_nat (length B) :: 64 word) \<le> 0"
    by simp
  then show ?thesis
    using Write_then_Read(2) [OF assms(1,2), of K buf 0] by simp
qed

theorem Write_then_Read_probe_witness:
  "IsObject (data_map JsonStateMap_init)
   \<and> length [0xDE, 0xAD :: byte] < 2 ^ 64
   \<and> [0xDE, 0xAD :: byte] \<noteq> []
   \<and> fst (Read ''x'' [7] 0 (snd (Write ''x'' [0xDE, 0xAD] 2 JsonStateMap_init))) =
       Inr (BUFFER_TOO_SMALL, 2, [7])"
proof -
  have h1: "IsObject (data_map JsonStateMap_init)"
    by (rule JsonStateMap_init_object)
  have h2: "length [0xDE, 0xAD :: byte] < 2 ^ 64"
    by simp
  have h3: "[0xDE, 0xAD :: byte] \<noteq> []"
    by simp
  show ?thesis
    using h1 h2 h3 Write_then_Read_probe [OF h1 h2 h3, of "''x''" "[7]"]
    by simp
qed

text \<open>
  C3. For every key that the store does not have and every capacity, \<open>Read\<close> returns
  \<open>ERROR\<close> and leaves the size parameter and the caller's buffer as they were.
\<close>

theorem Read_absent_key:
  assumes "\<not> Has (data_map st) K"
  shows "fst (Read K buf capacity st) = Inr (ERROR, capacity, buf)"
  using assms by (simp add: Read_def)

theorem Read_absent_key_witness:
  "\<not> Has (data_map JsonStateMap_init) ''x''
   \<and> fst (Read ''x'' [1, 2] 2 JsonStateMap_init) = Inr (ERROR, 2, [1, 2])"
proof -
  have h: "\<not> Has (data_map JsonStateMap_init) ''x''"
    by (simp add: JsonStateMap_init_def)
  show ?thesis
    using h Read_absent_key [OF h, of "[1, 2]" 2] by simp
qed

text \<open>
  C9. \<open>Read\<close> and \<open>Exists\<close> leave the document of the store as it was, for every key,
  buffer and capacity, also where \<open>Read\<close> raises: the index operator of \<open>Read\<close> is
  reached only for a key the document has, where it inserts nothing.
\<close>

theorem Read_Exists_frame:
  "snd (Read key data sz st) = st \<and> snd (Exists key st) = st"
proof
  show "snd (Read key data sz st) = st"
  proof (cases "Has (data_map st) key")
    case True
    then obtain v where "subscript (data_map st) key = Inr (v, data_map st)"
      using Has_subscript by blast
    with True show ?thesis
      by (simp add: Read_def Let_def split: sum.splits option.splits)
  next
    case False
    then show ?thesis
      by (simp add: Read_def)
  qed
  show "snd (Exists key st) = st"
    by (simp add: Exists_def)
qed

subsection \<open>The split of the command line\<close>

lemma Parse_loop_script:
  "Parse_loop script_args rest (pa, sa) = (pa, sa @ filter (\<lambda>a. a \<noteq> SEPARATOR) rest)"
  by (induction rest arbitrary: sa) auto

lemma Parse_loop_program:
  "Parse_loop program_args rest (pa, sa) =
     (pa @ takeWhile (\<lambda>a. a \<noteq> SEPARATOR) rest,
      sa @ filter (\<lambda>a. a \<noteq> SEPARATOR) (drop 1 (dropWhile (\<lambda>a. a \<noteq> SEPARATOR) rest)))"
  by (induction rest arbitrary: pa) (auto simp: Parse_loop_script)

lemma Parse_Cons:
  "Parse pparse (a0 # rest) =
     Inr \<lparr>program = pparse (a0 # takeWhile (\<lambda>a. a \<noteq> SEPARATOR) rest),
          script = a0 # filter (\<lambda>a. a \<noteq> SEPARATOR)
                          (drop 1 (dropWhile (\<lambda>a. a \<noteq> SEPARATOR) rest))\<rparr>"
  by (simp add: Parse_def Parse_loop_program)

lemma length_after_separator:
  "length (filter P (drop 1 (dropWhile Q rest))) \<le> length rest"
proof -
  have "length (filter P (drop 1 (dropWhile Q rest))) \<le> length (drop 1 (dropWhile Q rest))"
    by (rule length_filter_le)
  also have "\<dots> \<le> length (dropWhile Q rest)"
    by simp
  also have "\<dots> \<le> length rest"
    by (rule length_dropWhile_le)
  finally show ?thesis .
qed

text \<open>
  C10. For every command line \<open>argv[0], rest\<close> (of a length an \<open>int\<close> holds), \<open>Parse\<close>
  gives the script the list that starts with \<open>argv[0]\<close> and goes on with the arguments
  after the first \<open>--\<close>, every further \<open>--\<close> dropped. So \<open>Argc\<close> is one plus the number
  of arguments kept from behind the separator, and \<open>Argv(0)\<close> is the program name.
\<close>

theorem Parse_script_arguments:
  assumes "argv = a0 # rest" and "length argv < 2 ^ 31"
  shows "\<exists>ps. Parse pparse argv = Inr ps
            \<and> script ps = a0 # filter (\<lambda>a. a \<noteq> ''--'')
                                   (drop 1 (dropWhile (\<lambda>a. a \<noteq> ''--'') rest))
            \<and> sint (Argc ps) =
                1 + int (length (filter (\<lambda>a. a \<noteq> ''--'')
                                  (drop 1 (dropWhile (\<lambda>a. a \<noteq> ''--'') rest))))
            \<and> Argv ps 0 = Inr a0"
proof -
  let ?after = "filter (\<lambda>a. a \<noteq> ''--'') (drop 1 (dropWhile (\<lambda>a. a \<noteq> ''--'') rest))"
  let ?ps = "\<lparr>program = pparse (a0 # takeWhile (\<lambda>a. a \<noteq> ''--'') rest), script = a0 # ?after\<rparr>"
  have "length ?after \<le> length rest"
    by (rule length_after_separator)
  then have small: "Suc (length ?after) < 2 ^ 31"
    using assms by simp
  have argc: "sint (of_nat (length (a0 # ?after)) :: 32 word) = 1 + int (length ?after)"
    using sint_of_nat_32 [OF small] by simp
  have parse: "Parse pparse argv = Inr ?ps"
    using assms(1) by (simp add: Parse_Cons SEPARATOR_def)
  have "script ?ps = a0 # ?after"
    by simp
  moreover have "sint (Argc ?ps) = 1 + int (length ?after)"
    using argc by (simp add: Argc_def del: of_nat_Suc length_Cons list.size)
  moreover have "Argv ?ps 0 = Inr a0"
    by (simp add: Argv_def)
  ultimately show ?thesis
    using parse by blast
qed

theorem Parse_script_arguments_witness:
  "[''vm-lang'', ''s.etch'', ''--'', ''a'', ''--'', ''b''] = ''vm-lang'' # [''s.etch'', ''--'', ''a'', ''--'', ''b'']
   \<and> length [''vm-lang'', ''s.etch'', ''--'', ''a'', ''--'', ''b''] < 2 ^ 31
   \<and> (\<exists>ps. Parse (ParamsParser_Parse sample_Host)
                [''vm-lang'', ''s.etch'', ''--'', ''a'', ''--'', ''b''] = Inr ps
          \<and> script ps = [''vm-lang'', ''a'', ''b'']
          \<and> sint (Argc ps) = 3
          \<and> Argv ps 0 = Inr ''vm-lang'')"
proof -
  have h1: "[''vm-lang'', ''s.etch'', ''--'', ''a'', ''--'', ''b'']
              = ''vm-lang'' # [''s.etch'', ''--'', ''a'', ''--'', ''b'']"
    by simp
  have h2: "length [''vm-lang'', ''s.etch'', ''--'', ''a'', ''--'', ''b''] < 2 ^ 31"
    by simp
  show ?thesis
    using h2 Parse_script_arguments [OF h1 h2, of "ParamsParser_Parse sample_Host"] by simp
qed

subsection \<open>Loading and saving\<close>

text \<open>
  C4. \<open>LoadFromFile\<close> on a file that is absent returns normally and leaves the store as
  it was, so a fresh store stays in its empty initial state; the same on a file that is
  empty. On a file that is present and not empty and whose parsed root is no object, it
  raises the runtime error of the source. Each of the three holds under its own condition
  alone.
\<close>

theorem LoadFromFile_absent_empty_or_malformed:
  "(fs absent_path = None \<longrightarrow>
      LoadFromFile parse fs absent_path st = Inr st
      \<and> LoadFromFile parse fs absent_path JsonStateMap_init = Inr \<lparr>data_map = VObject []\<rparr>)
   \<and> (fs empty_path = Some [] \<longrightarrow>
      LoadFromFile parse fs empty_path st = Inr st
      \<and> LoadFromFile parse fs empty_path JsonStateMap_init = Inr \<lparr>data_map = VObject []\<rparr>)
   \<and> (fs path = Some contents \<longrightarrow> contents \<noteq> [] \<longrightarrow> parse contents = Some root
        \<longrightarrow> \<not> IsObject root \<longrightarrow>
      LoadFromFile parse fs path st = Inl (RuntimeError ''JSON state file is not correct''))"
  by (simp add: LoadFromFile_def ReadFileContents_def JsonStateMap_init_def)

lemma JSON_read_empty_list: "JSON_read ''[]'' = Some (VArray [])"
  by (simp add: JSON_read_def document_def structural_def is_space_def)

theorem LoadFromFile_absent_empty_or_malformed_witness:
  "Map.empty ''absent.json'' = (None :: string option)
   \<and> LoadFromFile JSON_read Map.empty ''absent.json'' JsonStateMap_init = Inr JsonStateMap_init
   \<and> sample_files ''absent.json'' = None
   \<and> sample_files ''empty.json'' = Some []
   \<and> sample_files ''list.json'' = Some ''[]''
   \<and> ''[]'' \<noteq> ([] :: string)
   \<and> JSON_read ''[]'' = Some (VArray [])
   \<and> \<not> IsObject (VArray [])
   \<and> LoadFromFile JSON_read sample_files ''absent.json'' JsonStateMap_init
        = Inr JsonStateMap_init
   \<and> LoadFromFile JSON_read sample_files ''empty.json'' JsonStateMap_init
        = Inr JsonStateMap_init
   \<and> LoadFromFile JSON_read sample_files ''list.json'' JsonStateMap_init
        = Inl (RuntimeError ''JSON state file is not correct'')"
proof -
  have h0: "Map.empty ''absent.json'' = (None :: string option)"
    by simp
  have h1: "sample_files ''absent.json'' = None"
    by (simp add: sample_files_def)
  have h2: "sample_files ''empty.json'' = Some []"
    by (simp add: sample_files_def)
  have h3: "sample_files ''list.json'' = Some ''[]''"
    by (simp add: sample_files_def)
  have h4: "''[]'' \<noteq> ([] :: string)"
    by simp
  have h5: "JSON_read ''[]'' = Some (VArray [])"
    by (rule JSON_read_empty_list)
  have h6: "\<not> IsObject (VArray [])"
    by simp
  show ?thesis
    using h0 h1 h2 h3 h4 h5 h6
      LoadFromFile_absent_empty_or_malformed
        [where fs = Map.empty and absent_path = "''absent.json''"
           and parse = JSON_read and st = JsonStateMap_init]
      LoadFromFile_absent_empty_or_malformed
        [where fs = sample_files and absent_path = "''absent.json''"
           and empty_path = "''empty.json''" and path = "''list.json''"
           and contents = "''[]''" and root = "VArray []"
           and parse = JSON_read and st = JsonStateMap_init]
    by (simp add: JsonStateMap_init_def)
qed

subsection \<open>The JSON writer and reader\<close>









lemma members_strings: "members ts = Some kvs \<Longrightarrow> list_all (\<lambda>(k, v). IsString v) kvs"
  by (induction ts arbitrary: kvs rule: members.induct) (auto split: if_splits)

lemma JSON_read_object: "JSON_read text = Some root \<Longrightarrow> IsObject root \<Longrightarrow> string_members root"
  by (auto simp: JSON_read_def document_def members_strings
      split: option.splits list.splits token.splits if_splits)


lemma JsonStateMap_init_string_members: "string_members (data_map JsonStateMap_init)"
  by (simp add: JsonStateMap_init_def)

lemma update_keeps_all: "list_all P kvs \<Longrightarrow> P (k, v) \<Longrightarrow> list_all P (AList.update k v kvs)"
  by (induction kvs) auto

lemma update_appended_all:
  "map_of kvs k = None \<Longrightarrow> list_all P kvs \<Longrightarrow> P (k, v)
     \<Longrightarrow> list_all P (AList.update k v (kvs @ [(k, w)]))"
  by (induction kvs) (auto split: if_splits)

lemma Write_keeps_string_members:
  assumes "string_members (data_map st)"
  shows "string_members (data_map (snd (Write key data sz st)))"
proof -
  from assms obtain kvs where kvs: "data_map st = VObject kvs"
    and all: "list_all (\<lambda>(k, v). IsString v) kvs"
    by (cases "data_map st") auto
  show ?thesis
  proof (cases "map_of kvs key")
    case None
    have "list_all (\<lambda>(k, v). IsString v)
            (AList.update key (VString (ToHex (take (unat sz) data))) (kvs @ [(key, VNull)]))"
      using all None by (simp add: update_appended_all)
    with None show ?thesis
      by (simp add: Write_object [OF kvs])
  next
    case (Some v)
    with all show ?thesis
      by (simp add: Write_object [OF kvs] update_keeps_all)
  qed
qed

lemma LoadFromFile_keeps_string_members:
  "string_members (data_map st) \<Longrightarrow> LoadFromFile JSON_read fs filename st = Inr st'
     \<Longrightarrow> string_members (data_map st')"
  by (auto simp: LoadFromFile_def Let_def JSON_read_object split: if_splits option.splits)






subsection \<open>The host run\<close>

lemma GetArg_second: "args p = [a0, a1] \<Longrightarrow> arg_size p = 2 \<and> GetArg p 1 = Inr a1"
  by (simp add: arg_size_def GetArg_def)

text \<open>
  C6, as stated, fails: \<open>main\<close> compiles the source before it loads the state file, so
  the run that aborts on a state file whose root is a list has compiled already.
\<close>

theorem main_list_root_counterexample:
  "trace (main sample_Host [''vm-lang'', ''-data'', ''list.json'', ''argc.etch''] sample_files)
     = [Compiled [], LoadFailed (RuntimeError ''JSON state file is not correct'')]"
  by code_simp

text \<open>
  C6, amended. When the root of the state file is a list, loading it raises the runtime
  error of the source; in the host run the load comes after the source has compiled
  without diagnostics, so the run compiles, then aborts on the load, before the entry
  function is executed and before any state is saved.
\<close>

theorem main_list_root_aborts_after_compile:
  assumes "Parse (ParamsParser_Parse H) argv = Inr ps"
    and "args (program ps) = [a0, source_path]"
    and "Compile H (ReadFileContents fs source_path) = ([], compiled)"
    and "GetParam (program ps) ''data'' [] = data_path"
    and "data_path \<noteq> []"
    and "fs data_path = Some contents" and "contents \<noteq> []"
    and "JSONDocument H contents = Some (VArray xs)"
  shows "LoadFromFile (JSONDocument H) fs data_path JsonStateMap_init
           = Inl (RuntimeError ''JSON state file is not correct'')
       \<and> main H argv fs =
           \<lparr>outcome = Terminate (RuntimeError ''JSON state file is not correct''),
            trace = [Compiled [], LoadFailed (RuntimeError ''JSON state file is not correct'')],
            files = fs\<rparr>"
proof -
  have load: "LoadFromFile (JSONDocument H) fs data_path JsonStateMap_init
                = Inl (RuntimeError ''JSON state file is not correct'')"
    using assms(6-8) by (simp add: LoadFromFile_def ReadFileContents_def)
  have "main H argv fs =
           \<lparr>outcome = Terminate (RuntimeError ''JSON state file is not correct''),
            trace = [Compiled [], LoadFailed (RuntimeError ''JSON state file is not correct'')],
            files = fs\<rparr>"
    using assms(1,3,4,5) GetArg_second [OF assms(2)] load
    by (simp add: main_def)
  with load show ?thesis
    by simp
qed

lemma sample_run_list_root:
  "Parse (ParamsParser_Parse sample_Host) [''vm-lang'', ''-data'', ''list.json'', ''argc.etch'']
     = Inr \<lparr>program = \<lparr>args = [''vm-lang'', ''argc.etch''], params = [(''data'', ''list.json'')]\<rparr>,
            script = [''vm-lang'']\<rparr>"
  by (simp add: Parse_def SEPARATOR_def sample_Host_def)

lemma sample_Compile_argc: "sample_Compile argc_source = ([], argc_program)"
  by (simp add: sample_Compile_def Compile_program_def registered_names_def argc_program_def)

lemma sample_source: "ReadFileContents sample_files ''argc.etch'' = argc_source"
  by (simp add: ReadFileContents_def sample_files_def argc_source_def)

lemma sample_compiles:
  "Compile sample_Host (ReadFileContents sample_files ''argc.etch'') = ([], argc_program)"
  unfolding sample_source by (simp add: sample_Host_def sample_Compile_argc)

theorem main_list_root_aborts_after_compile_witness:
  "Parse (ParamsParser_Parse sample_Host) [''vm-lang'', ''-data'', ''list.json'', ''argc.etch'']
     = Inr \<lparr>program = \<lparr>args = [''vm-lang'', ''argc.etch''], params = [(''data'', ''list.json'')]\<rparr>,
            script = [''vm-lang'']\<rparr>
   \<and> Compile sample_Host (ReadFileContents sample_files ''argc.etch'') = ([], argc_program)
   \<and> sample_files ''list.json'' = Some ''[]''
   \<and> JSONDocument sample_Host ''[]'' = Some (VArray [])
   \<and> main sample_Host [''vm-lang'', ''-data'', ''list.json'', ''argc.etch''] sample_files =
        \<lparr>outcome = Terminate (RuntimeError ''JSON state file is not correct''),
         trace = [Compiled [], LoadFailed (RuntimeError ''JSON state file is not correct'')],
         files = sample_files\<rparr>"
proof -
  let ?ps = "\<lparr>program = \<lparr>args = [''vm-lang'', ''argc.etch''], params = [(''data'', ''list.json'')]\<rparr>,
              script = [''vm-lang'']\<rparr>"
  have h1: "Parse (ParamsParser_Parse sample_Host)
              [''vm-lang'', ''-data'', ''list.json'', ''argc.etch''] = Inr ?ps"
    by (rule sample_run_list_root)
  have h2: "args (program ?ps) = [''vm-lang'', ''argc.etch'']"
    by simp
  have h3: "Compile sample_Host (ReadFileContents sample_files ''argc.etch'') = ([], argc_program)"
    by (rule sample_compiles)
  have h4: "GetParam (program ?ps) ''data'' [] = ''list.json''"
    by (simp add: GetParam_def)
  have h5: "''list.json'' \<noteq> ([] :: string)"
    by simp
  have h6: "sample_files ''list.json'' = Some ''[]''"
    by (simp add: sample_files_def)
  have h7: "''[]'' \<noteq> ([] :: string)"
    by simp
  have h8: "JSONDocument sample_Host ''[]'' = Some (VArray [])"
    by (simp add: sample_Host_def JSON_read_empty_list)
  show ?thesis
    using h1 h3 h6 h8
      main_list_root_aborts_after_compile
        [where H = sample_Host and fs = sample_files and ps = ?ps
           and argv = "[''vm-lang'', ''-data'', ''list.json'', ''argc.etch'']",
         OF h1 h2 h3 h4 h5 h6 h7 h8]
    by simp
qed

text \<open>
  C8. The run returns 0 exactly when the source compiled without diagnostics and the
  call of the entry function was made and completed with success: the command line has
  passed the usage check, \<open>Compile\<close> has returned no diagnostics, the state file, if one
  is named, has loaded, and \<open>Execute\<close> has returned success. A run in which \<open>Compile\<close>
  returns diagnostics returns 1, and so does a run in which \<open>Execute\<close> returns failure
  (function not found, or a fault).
\<close>

lemma two_args: "arg_size p = 2 \<Longrightarrow> \<exists>program_name a1. args p = [program_name, a1]"
  by (auto simp: arg_size_def length_Suc_conv numeral_2_eq_2)

lemma main_outcome:
  assumes "Parse (ParamsParser_Parse H) argv = Inr ps"
    and "args (program ps) = [program_name, source_path]"
    and "Compile H (ReadFileContents fs source_path) = (errors, compiled)"
  shows "outcome (main H argv fs) =
           (if errors \<noteq> [] then Exit 1
            else (case (if GetParam (program ps) ''data'' [] \<noteq> []
                        then LoadFromFile (JSONDocument H) fs (GetParam (program ps) ''data'' [])
                               JsonStateMap_init
                        else Inr JsonStateMap_init) of
                    Inl e \<Rightarrow> Terminate e
                  | Inr state_map \<Rightarrow>
                      Exit (if success (fst (Execute H ps compiled
                                               (GetParam (program ps) ''func'' ''main'') state_map))
                            then 0 else 1)))"
  using assms(1,3) GetArg_second [OF assms(2)]
  by (simp add: main_def Let_def split: sum.splits prod.splits)

lemma main_exit_zero_reached:
  assumes "outcome (main H argv fs) = Exit 0"
  shows "\<exists>ps program_name source_path compiled.
           Parse (ParamsParser_Parse H) argv = Inr ps
         \<and> args (program ps) = [program_name, source_path]
         \<and> Compile H (ReadFileContents fs source_path) = ([], compiled)"
proof -
  from assms obtain ps where ps: "Parse (ParamsParser_Parse H) argv = Inr ps"
    by (cases "Parse (ParamsParser_Parse H) argv") (simp_all add: main_def)
  have "arg_size (program ps) = 2"
    using assms ps by (cases "arg_size (program ps) = 2") (simp_all add: main_def)
  then obtain program_name source_path where a: "args (program ps) = [program_name, source_path]"
    using two_args by blast
  obtain errors compiled where c: "Compile H (ReadFileContents fs source_path) = (errors, compiled)"
    by (cases "Compile H (ReadFileContents fs source_path)")
  have "errors = []"
    using assms main_outcome [OF ps a c] by (cases "errors = []") simp_all
  with ps a c show ?thesis
    by blast
qed

theorem main_exit_code:
  "(outcome (main H argv fs) = Exit 0 \<longleftrightarrow>
      (\<exists>ps program_name source_path compiled state_map.
          Parse (ParamsParser_Parse H) argv = Inr ps
        \<and> args (program ps) = [program_name, source_path]
        \<and> Compile H (ReadFileContents fs source_path) = ([], compiled)
        \<and> (if GetParam (program ps) ''data'' [] \<noteq> []
            then LoadFromFile (JSONDocument H) fs (GetParam (program ps) ''data'' [])
                   JsonStateMap_init
            else Inr JsonStateMap_init) = Inr state_map
        \<and> success (fst (Execute H ps compiled (GetParam (program ps) ''func'' ''main'')
                           state_map))))
   \<and> (Parse (ParamsParser_Parse H) argv = Inr ps
        \<longrightarrow> args (program ps) = [program_name, source_path]
        \<longrightarrow> Compile H (ReadFileContents fs source_path) = (errors, compiled)
        \<longrightarrow> errors \<noteq> []
        \<longrightarrow> outcome (main H argv fs) = Exit 1)
   \<and> (Parse (ParamsParser_Parse H) argv = Inr ps
        \<longrightarrow> args (program ps) = [program_name, source_path]
        \<longrightarrow> Compile H (ReadFileContents fs source_path) = ([], compiled)
        \<longrightarrow> (if GetParam (program ps) ''data'' [] \<noteq> []
             then LoadFromFile (JSONDocument H) fs (GetParam (program ps) ''data'' [])
                    JsonStateMap_init
             else Inr JsonStateMap_init) = Inr state_map
        \<longrightarrow> \<not> success (fst (Execute H ps compiled (GetParam (program ps) ''func'' ''main'')
                              state_map))
        \<longrightarrow> outcome (main H argv fs) = Exit 1)"
proof (intro conjI impI iffI)
  assume zero: "outcome (main H argv fs) = Exit 0"
  then obtain ps program_name source_path compiled where r:
    "Parse (ParamsParser_Parse H) argv = Inr ps"
    "args (program ps) = [program_name, source_path]"
    "Compile H (ReadFileContents fs source_path) = ([], compiled)"
    using main_exit_zero_reached by blast
  let ?load = "if GetParam (program ps) ''data'' [] \<noteq> []
               then LoadFromFile (JSONDocument H) fs (GetParam (program ps) ''data'' [])
                      JsonStateMap_init
               else Inr JsonStateMap_init"
  from zero main_outcome [OF r] obtain state_map where l: "?load = Inr state_map"
    by (cases ?load) simp_all
  from zero main_outcome [OF r] l
  have "success (fst (Execute H ps compiled (GetParam (program ps) ''func'' ''main'') state_map))"
    by (simp split: if_splits)
  with r l show "\<exists>ps program_name source_path compiled state_map.
          Parse (ParamsParser_Parse H) argv = Inr ps
        \<and> args (program ps) = [program_name, source_path]
        \<and> Compile H (ReadFileContents fs source_path) = ([], compiled)
        \<and> (if GetParam (program ps) ''data'' [] \<noteq> []
            then LoadFromFile (JSONDocument H) fs (GetParam (program ps) ''data'' [])
                   JsonStateMap_init
            else Inr JsonStateMap_init) = Inr state_map
        \<and> success (fst (Execute H ps compiled (GetParam (program ps) ''func'' ''main'')
                           state_map))"
    by blast
next
  assume "\<exists>ps program_name source_path compiled state_map.
          Parse (ParamsParser_Parse H) argv = Inr ps
        \<and> args (program ps) = [program_name, source_path]
        \<and> Compile H (ReadFileContents fs source_path) = ([], compiled)
        \<and> (if GetParam (program ps) ''data'' [] \<noteq> []
            then LoadFromFile (JSONDocument H) fs (GetParam (program ps) ''data'' [])
                   JsonStateMap_init
            else Inr JsonStateMap_init) = Inr state_map
        \<and> success (fst (Execute H ps compiled (GetParam (program ps) ''func'' ''main'')
                           state_map))"
  then obtain ps program_name source_path compiled state_map where r:
    "Parse (ParamsParser_Parse H) argv = Inr ps"
    "args (program ps) = [program_name, source_path]"
    "Compile H (ReadFileContents fs source_path) = ([], compiled)"
    and l: "(if GetParam (program ps) ''data'' [] \<noteq> []
            then LoadFromFile (JSONDocument H) fs (GetParam (program ps) ''data'' [])
                   JsonStateMap_init
            else Inr JsonStateMap_init) = Inr state_map"
    and s: "success (fst (Execute H ps compiled (GetParam (program ps) ''func'' ''main'')
                           state_map))"
    by blast
  show "outcome (main H argv fs) = Exit 0"
    using main_outcome [OF r] l s by simp
next
  assume r: "Parse (ParamsParser_Parse H) argv = Inr ps"
    "args (program ps) = [program_name, source_path]"
    "Compile H (ReadFileContents fs source_path) = (errors, compiled)"
    and e: "errors \<noteq> []"
  show "outcome (main H argv fs) = Exit 1"
    using main_outcome [OF r] e by simp
next
  assume r: "Parse (ParamsParser_Parse H) argv = Inr ps"
    "args (program ps) = [program_name, source_path]"
    "Compile H (ReadFileContents fs source_path) = ([], compiled)"
    and l: "(if GetParam (program ps) ''data'' [] \<noteq> []
             then LoadFromFile (JSONDocument H) fs (GetParam (program ps) ''data'' [])
                    JsonStateMap_init
             else Inr JsonStateMap_init) = Inr state_map"
    and s: "\<not> success (fst (Execute H ps compiled (GetParam (program ps) ''func'' ''main'')
                              state_map))"
  show "outcome (main H argv fs) = Exit 1"
    using main_outcome [OF r] l s by simp
qed

lemma sample_run_plain:
  "Parse (ParamsParser_Parse sample_Host) [''vm-lang'', ''argc.etch'']
     = Inr \<lparr>program = \<lparr>args = [''vm-lang'', ''argc.etch''], params = []\<rparr>,
            script = [''vm-lang'']\<rparr>"
  by (simp add: Parse_def SEPARATOR_def sample_Host_def)

lemma sample_run_missing_source:
  "Parse (ParamsParser_Parse sample_Host) [''vm-lang'', ''missing.etch'']
     = Inr \<lparr>program = \<lparr>args = [''vm-lang'', ''missing.etch''], params = []\<rparr>,
            script = [''vm-lang'']\<rparr>"
  by (simp add: Parse_def SEPARATOR_def sample_Host_def)

lemma sample_run_other_function:
  "Parse (ParamsParser_Parse sample_Host) [''vm-lang'', ''-func'', ''start'', ''argc.etch'']
     = Inr \<lparr>program = \<lparr>args = [''vm-lang'', ''argc.etch''], params = [(''func'', ''start'')]\<rparr>,
            script = [''vm-lang'']\<rparr>"
  by (simp add: Parse_def SEPARATOR_def sample_Host_def)

lemma sample_rejects_missing_source:
  "Compile sample_Host (ReadFileContents sample_files ''missing.etch'')
     = ([''line 1: syntax error''], [])"
  by (simp add: sample_Host_def ReadFileContents_def sample_files_def sample_Compile_def
      argc_source_def)

theorem main_exit_code_witness:
  "Compile sample_Host (ReadFileContents sample_files ''argc.etch'') = ([], argc_program)
   \<and> success (fst (Execute sample_Host
                      \<lparr>program = \<lparr>args = [''vm-lang'', ''argc.etch''], params = []\<rparr>,
                       script = [''vm-lang'']\<rparr>
                      argc_program ''main'' JsonStateMap_init))
   \<and> outcome (main sample_Host [''vm-lang'', ''argc.etch''] sample_files) = Exit 0
   \<and> Compile sample_Host (ReadFileContents sample_files ''missing.etch'')
       = ([''line 1: syntax error''], [])
   \<and> outcome (main sample_Host [''vm-lang'', ''missing.etch''] sample_files) = Exit 1
   \<and> \<not> success (fst (Execute sample_Host
                        \<lparr>program = \<lparr>args = [''vm-lang'', ''argc.etch''],
                                    params = [(''func'', ''start'')]\<rparr>,
                         script = [''vm-lang'']\<rparr>
                        argc_program ''start'' JsonStateMap_init))
   \<and> outcome (main sample_Host [''vm-lang'', ''-func'', ''start'', ''argc.etch''] sample_files)
       = Exit 1"
proof -
  let ?A = "\<lparr>program = \<lparr>args = [''vm-lang'', ''argc.etch''], params = []\<rparr>,
             script = [''vm-lang'']\<rparr>"
  let ?B = "\<lparr>program = \<lparr>args = [''vm-lang'', ''missing.etch''], params = []\<rparr>,
             script = [''vm-lang'']\<rparr>"
  let ?C = "\<lparr>program = \<lparr>args = [''vm-lang'', ''argc.etch''], params = [(''func'', ''start'')]\<rparr>,
             script = [''vm-lang'']\<rparr>"
  have loadA: "(if GetParam (program ?A) ''data'' [] \<noteq> []
                then LoadFromFile (JSONDocument sample_Host) sample_files
                       (GetParam (program ?A) ''data'' []) JsonStateMap_init
                else Inr JsonStateMap_init) = Inr JsonStateMap_init"
    by (simp add: GetParam_def)
  have loadC: "(if GetParam (program ?C) ''data'' [] \<noteq> []
                then LoadFromFile (JSONDocument sample_Host) sample_files
                       (GetParam (program ?C) ''data'' []) JsonStateMap_init
                else Inr JsonStateMap_init) = Inr JsonStateMap_init"
    by (simp add: GetParam_def)
  have okA: "success (fst (Execute sample_Host ?A argc_program ''main'' JsonStateMap_init))"
    by (simp add: sample_Host_def Execute_program_def argc_program_def System_bindings_def)
  have okA': "success (fst (Execute sample_Host ?A argc_program
                              (GetParam (program ?A) ''func'' ''main'') JsonStateMap_init))"
    using okA by (simp add: GetParam_def)
  have failC: "\<not> success (fst (Execute sample_Host ?C argc_program ''start'' JsonStateMap_init))"
    by (simp add: sample_Host_def Execute_program_def argc_program_def)
  have failC': "\<not> success (fst (Execute sample_Host ?C argc_program
                                 (GetParam (program ?C) ''func'' ''main'') JsonStateMap_init))"
    using failC by (simp add: GetParam_def)
  have argsA: "args (program ?A) = [''vm-lang'', ''argc.etch'']"
    by simp
  have argsB: "args (program ?B) = [''vm-lang'', ''missing.etch'']"
    by simp
  have argsC: "args (program ?C) = [''vm-lang'', ''argc.etch'']"
    by simp
  have errs: "[''line 1: syntax error''] \<noteq> ([] :: string list)"
    by simp
  have reached:
    "Parse (ParamsParser_Parse sample_Host) [''vm-lang'', ''argc.etch''] = Inr ?A
     \<and> args (program ?A) = [''vm-lang'', ''argc.etch'']
     \<and> Compile sample_Host (ReadFileContents sample_files ''argc.etch'') = ([], argc_program)
     \<and> (if GetParam (program ?A) ''data'' [] \<noteq> []
         then LoadFromFile (JSONDocument sample_Host) sample_files
                (GetParam (program ?A) ''data'' []) JsonStateMap_init
         else Inr JsonStateMap_init) = Inr JsonStateMap_init
     \<and> success (fst (Execute sample_Host ?A argc_program
                        (GetParam (program ?A) ''func'' ''main'') JsonStateMap_init))"
    using sample_run_plain argsA sample_compiles loadA okA' by (intro conjI)
  have zero: "outcome (main sample_Host [''vm-lang'', ''argc.etch''] sample_files) = Exit 0"
    apply (rule main_exit_code [where H = sample_Host and argv = "[''vm-lang'', ''argc.etch'']"
                                  and fs = sample_files, THEN conjunct1, THEN iffD2])
    apply (rule exI [of _ ?A])
    apply (rule exI [of _ "''vm-lang''"])
    apply (rule exI [of _ "''argc.etch''"])
    apply (rule exI [of _ argc_program])
    apply (rule exI [of _ JsonStateMap_init])
    apply (rule reached)
    done
  have one: "outcome (main sample_Host [''vm-lang'', ''missing.etch''] sample_files) = Exit 1"
    by (rule main_exit_code
          [where H = sample_Host and argv = "[''vm-lang'', ''missing.etch'']"
             and fs = sample_files and ps = ?B and program_name = "''vm-lang''"
             and source_path = "''missing.etch''"
             and errors = "[''line 1: syntax error'']" and compiled = "[]",
           THEN conjunct2, THEN conjunct1, THEN mp, THEN mp, THEN mp, THEN mp,
           OF sample_run_missing_source argsB sample_rejects_missing_source errs])
  have one': "outcome (main sample_Host [''vm-lang'', ''-func'', ''start'', ''argc.etch'']
                         sample_files) = Exit 1"
    by (rule main_exit_code
          [where H = sample_Host
             and argv = "[''vm-lang'', ''-func'', ''start'', ''argc.etch'']"
             and fs = sample_files and ps = ?C and program_name = "''vm-lang''"
             and source_path = "''argc.etch''" and compiled = argc_program
             and state_map = JsonStateMap_init,
           THEN conjunct2, THEN conjunct2, THEN mp, THEN mp, THEN mp, THEN mp, THEN mp,
           OF sample_run_other_function argsC sample_compiles loadC failC'])
  show ?thesis
    using sample_compiles okA zero sample_rejects_missing_source one failC one'
    by (intro conjI)
qed

subsection \<open>The argument-count scenario\<close>

lemma sample_run_script_args:
  "Parse (ParamsParser_Parse sample_Host) [''vm-lang'', ''argc.etch'', ''--'', ''a'', ''b'']
     = Inr \<lparr>program = \<lparr>args = [''vm-lang'', ''argc.etch''], params = []\<rparr>,
            script = [''vm-lang'', ''a'', ''b'']\<rparr>"
  by (simp add: Parse_def SEPARATOR_def sample_Host_def)

lemma Execute_argc_program:
  "fst (Execute_program ps argc_program ''main'' st)
     = \<lparr>success = True, error_text = [], console = [], output_value = Int32Value (Argc ps)\<rparr>"
  by (simp add: argc_program_def Execute_program_def System_bindings_def)

lemma Compile_argc_program:
  "Compile_program registered_names argc_program = ([], argc_program)"
  by (simp add: Compile_program_def registered_names_def argc_program_def)

text \<open>
  C7, as stated, fails in the host: the list the binding counts is built by \<open>Parse\<close>
  and starts with \<open>argv[0]\<close>, so a run with the script arguments \<open>a\<close> and \<open>b\<close> gives
  the output 3, not 2.
\<close>

theorem Argc_scenario_counterexample:
  "Parse (ParamsParser_Parse sample_Host) [''vm-lang'', ''argc.etch'', ''--'', ''a'', ''b'']
     = Inr \<lparr>program = \<lparr>args = [''vm-lang'', ''argc.etch''], params = []\<rparr>,
            script = [''vm-lang'', ''a'', ''b'']\<rparr>
   \<and> Compile sample_Host (ReadFileContents sample_files ''argc.etch'') = ([], argc_program)
   \<and> fst (Execute sample_Host
             \<lparr>program = \<lparr>args = [''vm-lang'', ''argc.etch''], params = []\<rparr>,
              script = [''vm-lang'', ''a'', ''b'']\<rparr>
             argc_program ''main'' JsonStateMap_init)
       = \<lparr>success = True, error_text = [], console = [], output_value = Int32Value 3\<rparr>
   \<and> output_value
         (fst (Execute sample_Host
                 \<lparr>program = \<lparr>args = [''vm-lang'', ''argc.etch''], params = []\<rparr>,
                  script = [''vm-lang'', ''a'', ''b'']\<rparr>
                 argc_program ''main'' JsonStateMap_init))
       \<noteq> Int32Value 2"
  using sample_run_script_args sample_compiles
  by (simp add: sample_Host_def Execute_argc_program Argc_def)

text \<open>
  C7, amended. The program \<open>function main(): Int32 return System.Argc(); end\<close> compiles
  against the registered bindings without diagnostics, and for every command line that
  gives the script arguments \<open>a\<close> and \<open>b\<close> after the separator, executing \<open>main\<close> with
  the parameters \<open>Parse\<close> has built gives \<open>success = True\<close> and the output 3: the
  binding returns the number of elements of the script list, which is one more than the
  number of script arguments, as the list starts with \<open>argv[0]\<close>.
\<close>

theorem Argc_scenario_command_line:
  assumes "argv = a0 # program_arguments @ ''--'' # [''a'', ''b'']"
    and "''--'' \<notin> set program_arguments"
  shows "Compile_program registered_names argc_program = ([], argc_program)
       \<and> (\<exists>ps. Parse pparse argv = Inr ps
              \<and> script ps = [a0, ''a'', ''b'']
              \<and> fst (Execute_program ps argc_program ''main'' st)
                  = \<lparr>success = True, error_text = [], console = [],
                     output_value = Int32Value 3\<rparr>)
       \<and> fst (Execute_program ps' argc_program ''main'' st)
           = \<lparr>success = True, error_text = [], console = [],
              output_value = Int32Value (of_nat (length (script ps')))\<rparr>"
proof -
  have "\<And>x. x \<in> set program_arguments \<Longrightarrow> x \<noteq> ''--''"
    using assms(2) by blast
  then have "dropWhile (\<lambda>a. a \<noteq> ''--'') (program_arguments @ ''--'' # [''a'', ''b''])
          = dropWhile (\<lambda>a. a \<noteq> ''--'') (''--'' # [''a'', ''b''])"
    by (rule dropWhile_append2)
  then have "dropWhile (\<lambda>a. a \<noteq> ''--'') (program_arguments @ ''--'' # [''a'', ''b''])
          = ''--'' # [''a'', ''b'']"
    by simp
  then have "Parse pparse argv =
      Inr \<lparr>program = pparse (a0 # takeWhile (\<lambda>a. a \<noteq> ''--'')
                                     (program_arguments @ ''--'' # [''a'', ''b''])),
           script = [a0, ''a'', ''b'']\<rparr>"
    unfolding assms(1) Parse_Cons SEPARATOR_def by simp
  then show ?thesis
    by (simp add: Compile_argc_program Execute_argc_program Argc_def)
qed

theorem Argc_scenario_command_line_witness:
  "[''vm-lang'', ''argc.etch'', ''--'', ''a'', ''b'']
     = ''vm-lang'' # [''argc.etch''] @ ''--'' # [''a'', ''b'']
   \<and> ''--'' \<notin> set [''argc.etch'']
   \<and> (\<exists>ps. Parse (ParamsParser_Parse sample_Host)
                [''vm-lang'', ''argc.etch'', ''--'', ''a'', ''b''] = Inr ps
          \<and> script ps = [''vm-lang'', ''a'', ''b'']
          \<and> fst (Execute_program ps argc_program ''main'' JsonStateMap_init)
              = \<lparr>success = True, error_text = [], console = [],
                 output_value = Int32Value 3\<rparr>)"
proof -
  have h1: "[''vm-lang'', ''argc.etch'', ''--'', ''a'', ''b'']
              = ''vm-lang'' # [''argc.etch''] @ ''--'' # [''a'', ''b'']"
    by simp
  have h2: "''--'' \<notin> set [''argc.etch'']"
    by simp
  have "\<exists>ps. Parse (ParamsParser_Parse sample_Host)
                [''vm-lang'', ''argc.etch'', ''--'', ''a'', ''b''] = Inr ps
          \<and> script ps = [''vm-lang'', ''a'', ''b'']
          \<and> fst (Execute_program ps argc_program ''main'' JsonStateMap_init)
              = \<lparr>success = True, error_text = [], console = [],
                 output_value = Int32Value 3\<rparr>"
    by (rule Argc_scenario_command_line
          [OF h1 h2, where pparse = "ParamsParser_Parse sample_Host"
             and st = JsonStateMap_init, THEN conjunct2, THEN conjunct1])
  with h1 h2 show ?thesis
    by (intro conjI)
qed

end
